theory Spec2Isabelle
  imports Main "HOL-Library.AList"
begin

section \<open>Go values shared by both packages\<close>

text \<open>
  A Go \<open>error\<close> value. \<open>ApiNotFound\<close> is an API status error whose reason is
  "not found" (the errors \<open>apierrors.IsNotFound\<close> recognises), \<open>Err\<close> is any other
  error, \<open>Wrapped p e\<close> is \<open>fmt.Errorf(p + "%w", e)\<close>. A nil error is \<open>None\<close> of
  \<open>go_error option\<close>.
\<close>

datatype go_error = ApiNotFound string | Err string | Wrapped string go_error

fun Error_msg :: "go_error \<Rightarrow> string" where
  "Error_msg (ApiNotFound m) = m"
| "Error_msg (Err m) = m"
| "Error_msg (Wrapped p e) = p @ Error_msg e"

fun IsNotFound :: "go_error \<Rightarrow> bool" where
  "IsNotFound (ApiNotFound m) = True"
| "IsNotFound (Err m) = False"
| "IsNotFound (Wrapped p e) = IsNotFound e"

section \<open>operator/pkg/controllers/hubofhubs: protocol detection\<close>

text \<open>
  \<open>transport.TransportProtocol\<close>: the two values this file names. The switch of
  \<open>ReconcileTransport\<close> has a case for each, and \<open>detectTransportProtocol\<close> returns
  no other.
\<close>

datatype TransportProtocol = StrimziTransporter | SecretTransporter

text \<open>
  \<open>detectTransportProtocol\<close>. Its one input from the cluster is the result of
  \<open>runtimeClient.Get\<close> on the secret \<open>constants.GHTransportSecretName\<close> in
  \<open>utils.GetDefaultNamespace()\<close>: \<open>None\<close> when the secret was read, the error
  otherwise. The result is Go's pair (protocol, error).
\<close>

definition detectTransportProtocol :: "go_error option \<Rightarrow> TransportProtocol \<times> go_error option" where
  "detectTransportProtocol get_err =
     (case get_err of
        None \<Rightarrow> (SecretTransporter, None)
      | Some err \<Rightarrow>
          if \<not> IsNotFound err then (SecretTransporter, Some err)
          else (StrimziTransporter, None))"

section \<open>operator/pkg/controllers/hubofhubs: what the reconciler calls\<close>

text \<open>
  \<open>transport.ClusterTopic\<close>, with the three fields the file reads, and
  \<open>transport.ConnCredential\<close> and \<open>postgres.PostgresConnection\<close>, which the file
  only passes on (none of their fields is read here).
\<close>

record ClusterTopic =
  SpecTopic :: string
  StatusTopic :: string
  EventTopic :: string

datatype ConnCredential = ConnCredential string

datatype PostgresConnection = PostgresConnection string

text \<open>
  The \<open>transport.Transporter\<close> interface: one field for each method the file calls.
  The implementations (Strimzi, bring-your-own) live in another package, so a
  transporter is its table of methods. A method that returns \<open>error\<close> gives
  \<open>None\<close> for nil. \<open>GetConnCredential\<close> is asked again and again while the
  credential is awaited and its answer changes with time, so it takes the number of the
  timer tick at which it is asked; it returns Go's pair (credential, error).
\<close>

record Transporter =
  CreateUser :: "string \<Rightarrow> go_error option"
  GenerateClusterTopic :: "string \<Rightarrow> ClusterTopic"
  CreateTopic :: "ClusterTopic \<Rightarrow> go_error option"
  GrantRead :: "string \<Rightarrow> string \<Rightarrow> go_error option"
  GrantWrite :: "string \<Rightarrow> string \<Rightarrow> go_error option"
  GetConnCredential :: "nat \<Rightarrow> string \<Rightarrow> ConnCredential option \<times> go_error option"

text \<open>
  The calls that leave the reconciler, in the order they are made. Calls on the
  transporter carry their arguments; \<open>CallAddKafkaCRDController ok\<close> records whether
  the watcher was installed (\<open>ok\<close>) or the installation failed.
\<close>

datatype call =
    CallRender
  | CallNewDiscoveryClientForConfig
  | CallManipulateObj
  | CallNewStrimziTransporter
  | CallNewBYOTransporter
  | CallCreateUser string
  | CallGenerateClusterTopic string
  | CallCreateTopic ClusterTopic
  | CallGrantRead string string
  | CallGrantWrite string string
  | CallGetConnCredential string
  | LogInfo string
  | CallSetTransporter
  | CallAddKafkaCRDController bool

text \<open>
  \<open>kafkaController\<close>, of which the file reads the field \<open>conn\<close>.
\<close>

record KafkaController =
  controller_conn :: "ConnCredential option"

text \<open>
  What one reconciliation pass finds outside the reconciler: the result of every call
  whose body is in another package, the \<open>EnableMetrics\<close> flag of the
  \<open>MulticlusterGlobalHub\<close> resource, the two constants of the transporter package, and
  \<open>r.KafkaController\<close>, a field that only the Kafka watcher writes, as the pass reads
  it at its check.
\<close>

record env =
  secret_Get :: "go_error option"
  EnableMetrics :: bool
  Render :: "go_error option"
  NewDiscoveryClientForConfig :: "go_error option"
  manipulateObj :: "go_error option"
  NewStrimziTransporter :: "go_error + Transporter"
  NewBYOTransporter :: Transporter
  DefaultGlobalHubKafkaUser :: string
  GlobalHubClusterName :: string
  addKafkaCRDController :: "go_error option"
  KafkaController :: "KafkaController option"

text \<open>
  The state a pass changes: the fields \<open>KafkaInit\<close>,
  \<open>MiddlewareConfig.TransportConn\<close> and \<open>MiddlewareConfig.StorageConn\<close> of the
  reconciler, the package-level transporter that \<open>config.SetTransporter\<close> writes, and
  the log of the calls made so far.
\<close>

record reconciler =
  KafkaInit :: bool
  TransportConn :: "ConnCredential option"
  StorageConn :: "PostgresConnection option"
  config_transporter :: "Transporter option"
  calls :: "call list"

definition emit :: "call \<Rightarrow> reconciler \<Rightarrow> reconciler" where
  "emit c r = r\<lparr>calls := calls r @ [c]\<rparr>"

section \<open>renderKafkaMetricsResources\<close>

definition renderKafkaMetricsResources :: "env \<Rightarrow> reconciler \<Rightarrow> go_error option \<times> reconciler" where
  "renderKafkaMetricsResources e r =
     (if EnableMetrics e then
        (let r1 = emit CallRender r in
         case Render e of
           Some err \<Rightarrow> (Some (Wrapped ''failed to render kafka manifests: '' err), r1)
         | None \<Rightarrow>
            (let r2 = emit CallNewDiscoveryClientForConfig r1 in
             case NewDiscoveryClientForConfig e of
               Some err \<Rightarrow> (Some err, r2)
             | None \<Rightarrow>
                (let r3 = emit CallManipulateObj r2 in
                 case manipulateObj e of
                   Some err \<Rightarrow> (Some (Wrapped ''failed to create/update kafka objects: '' err), r3)
                 | None \<Rightarrow> (None, r3))))
      else (None, r))"

section \<open>wait.PollUntilContextTimeout\<close>

text \<open>
  \<open>time.Duration\<close> counts nanoseconds.
\<close>

definition time_Second :: nat where
  "time_Second = 1000000000"

definition time_Minute :: nat where
  "time_Minute = 60 * time_Second"

definition DeadlineExceeded :: go_error where
  "DeadlineExceeded = Err ''context deadline exceeded''"

text \<open>
  \<open>wait.PollUntilContextTimeout(ctx, interval, timeout, immediate, condition)\<close> of
  k8s.io/apimachinery, a library the file calls; modelled after the library's
  \<open>loopConditionUntilContext\<close>. The condition runs at the ticks of a timer of period
  \<open>interval\<close> (tick \<open>k\<close> is at time \<open>k * interval\<close>; with \<open>immediate\<close> also at
  tick 0) for as long as the tick is before the deadline \<open>timeout\<close>. After each run:
  \<open>if err != nil || ok { return err }\<close>, so the poll ends with nil when the condition
  says done, ends with the condition's error as soon as the condition returns one, and
  goes on to the next tick only on (false, nil). When the deadline comes first the poll
  returns the context's error, \<open>context.DeadlineExceeded\<close>. The condition is a closure
  that writes to variables of its caller: it takes and returns their state \<open>'s\<close>.
  The caller's own context is taken as never cancelled, and a run of the condition as
  taking no time.

  \<open>loopConditionUntilContext n k\<close>: \<open>n\<close> ticks are left before the deadline, the next
  one is tick \<open>k\<close>.
\<close>

fun loopConditionUntilContext ::
  "nat \<Rightarrow> nat \<Rightarrow> (nat \<Rightarrow> 's \<Rightarrow> (bool \<times> go_error option) \<times> 's) \<Rightarrow> 's \<Rightarrow> go_error option \<times> 's" where
  "loopConditionUntilContext 0 k condition s = (Some DeadlineExceeded, s)"
| "loopConditionUntilContext (Suc n) k condition s =
     (case condition k s of
        ((ok, err), s') \<Rightarrow>
          if err \<noteq> None \<or> ok then (err, s')
          else loopConditionUntilContext n (Suc k) condition s')"

definition PollUntilContextTimeout ::
  "nat \<Rightarrow> nat \<Rightarrow> bool \<Rightarrow> (nat \<Rightarrow> 's \<Rightarrow> (bool \<times> go_error option) \<times> 's) \<Rightarrow> 's \<Rightarrow> go_error option \<times> 's" where
  "PollUntilContextTimeout interval timeout immediate condition s =
     (let ticks = (timeout - 1) div interval in
      if immediate then
        (case condition 0 s of
           ((ok, err), s') \<Rightarrow>
             if err \<noteq> None \<or> ok then (err, s')
             else loopConditionUntilContext ticks 1 condition s')
      else loopConditionUntilContext ticks 1 condition s)"

section \<open>ReconcileTransport\<close>

text \<open>
  The switch on \<open>transProtocol\<close> that creates the transporter. Only
  \<open>NewStrimziTransporter\<close> can fail.
\<close>

definition new_transporter :: "env \<Rightarrow> TransportProtocol \<Rightarrow> reconciler \<Rightarrow> (go_error + Transporter) \<times> reconciler" where
  "new_transporter e transProtocol r =
     (case transProtocol of
        StrimziTransporter \<Rightarrow> (NewStrimziTransporter e, emit CallNewStrimziTransporter r)
      | SecretTransporter \<Rightarrow> (Inr (NewBYOTransporter e), emit CallNewBYOTransporter r))"

text \<open>
  The closure handed to the poll. It assigns the variables \<open>conn\<close> and \<open>err\<close> of
  \<open>ReconcileTransport\<close>; \<open>err\<close> is assigned again by the poll's own result as soon
  as the poll returns, so the state the closure carries is \<open>conn\<close> and the reconciler
  (for the log).
\<close>

definition credential_condition ::
  "Transporter \<Rightarrow> string \<Rightarrow> nat \<Rightarrow> ConnCredential option \<times> reconciler
     \<Rightarrow> (bool \<times> go_error option) \<times> (ConnCredential option \<times> reconciler)" where
  "credential_condition tr user k s =
     (case s of (conn0, r) \<Rightarrow>
        (case GetConnCredential tr k user of
           (conn, err) \<Rightarrow>
             (let r1 = emit (CallGetConnCredential user) r in
              case err of
                Some x \<Rightarrow>
                  ((False, Some x),
                   (conn, emit (LogInfo ''waiting the kafka connection credential to be ready...'') r1))
              | None \<Rightarrow> ((True, None), (conn, r1)))))"

text \<open>
  \<open>ReconcileTransport\<close>. Each \<open>if err != nil { return nil, err }\<close> is a branch that
  ends the function. After the poll, \<open>if trans != nil\<close> holds on every path that
  arrives there (both cases of the switch assign \<open>trans\<close>), so
  \<open>config.SetTransporter(trans)\<close> runs, and the function returns \<open>conn, err\<close>.
\<close>

definition ReconcileTransport ::
  "env \<Rightarrow> TransportProtocol \<Rightarrow> reconciler \<Rightarrow> (ConnCredential option \<times> go_error option) \<times> reconciler" where
  "ReconcileTransport e transProtocol r0 =
     (case renderKafkaMetricsResources e r0 of
        (Some err, r1) \<Rightarrow> ((None, Some err), r1)
      | (None, r1) \<Rightarrow>
     (case new_transporter e transProtocol r1 of
        (Inl err, r2) \<Rightarrow> ((None, Some err), r2)
      | (Inr tr, r2) \<Rightarrow>
     (let user = DefaultGlobalHubKafkaUser e;
          r3 = emit (CallCreateUser user) r2 in
      case CreateUser tr user of
        Some err \<Rightarrow> ((None, Some err), r3)
      | None \<Rightarrow>
     (let topics = GenerateClusterTopic tr (GlobalHubClusterName e);
          r4 = emit (CallGenerateClusterTopic (GlobalHubClusterName e)) r3;
          r5 = emit (CallCreateTopic topics) r4 in
      case CreateTopic tr topics of
        Some err \<Rightarrow> ((None, Some err), r5)
      | None \<Rightarrow>
     (let r6 = emit (CallGrantRead user (EventTopic topics)) r5 in
      case GrantRead tr user (EventTopic topics) of
        Some err \<Rightarrow> ((None, Some err), r6)
      | None \<Rightarrow>
     (let r7 = emit (CallGrantRead user (StatusTopic topics)) r6 in
      case GrantRead tr user (StatusTopic topics) of
        Some err \<Rightarrow> ((None, Some err), r7)
      | None \<Rightarrow>
     (let r8 = emit (CallGrantWrite user (SpecTopic topics)) r7 in
      case GrantWrite tr user (SpecTopic topics) of
        Some err \<Rightarrow> ((None, Some err), r8)
      | None \<Rightarrow>
     (case PollUntilContextTimeout (2 * time_Second) (10 * time_Minute) True
             (credential_condition tr user) (None, r8) of
        (err, (conn, r9)) \<Rightarrow>
          ((conn, err), (emit CallSetTransporter r9)\<lparr>config_transporter := Some tr\<rparr>)))))))))"

section \<open>ReconcileStorage\<close>

text \<open>
  What the storage path finds outside the reconciler. \<open>EnsureCrunchyPostgres\<close> is
  called once before the poll and once at every tick of the poll: its argument is the
  number of the call (0 before the poll, \<open>Suc k\<close> at tick \<open>k\<close>).
  \<open>GetPGConnectionFromBuildInPostgres\<close> takes the tick.
\<close>

record storage_env =
  GetPGConnectionFromGHStorageSecret :: "PostgresConnection option \<times> go_error option"
  GetInstallCrunchyOperator :: bool
  EnsureCrunchyPostgresSubscription :: "go_error option"
  InitPostgresByStatefulset :: "PostgresConnection option \<times> go_error option"
  EnsureCrunchyPostgres :: "nat \<Rightarrow> go_error option"
  GetPGConnectionFromBuildInPostgres :: "nat \<Rightarrow> PostgresConnection option \<times> go_error option"

text \<open>
  The closure of the storage poll: it assigns \<open>pgConnection\<close>, and answers
  (false, nil) on either failure, so the poll goes on.
\<close>

definition postgres_condition ::
  "storage_env \<Rightarrow> nat \<Rightarrow> PostgresConnection option
     \<Rightarrow> (bool \<times> go_error option) \<times> PostgresConnection option" where
  "postgres_condition se k pgConnection =
     (case EnsureCrunchyPostgres se (Suc k) of
        Some err \<Rightarrow> ((False, None), pgConnection)
      | None \<Rightarrow>
          (case GetPGConnectionFromBuildInPostgres se k of
             (pg, Some err) \<Rightarrow> ((False, None), pg)
           | (pg, None) \<Rightarrow> ((True, None), pg)))"


section \<open>ReconcileMiddleware\<close>

text \<open>
  \<open>ctrl.Result\<close>; \<open>ctrl.Result{}\<close> is \<open>Result_zero\<close>.
\<close>

record Result =
  Requeue :: bool
  RequeueAfter :: nat

definition Result_zero :: Result where
  "Result_zero = \<lparr>Requeue = False, RequeueAfter = 0\<rparr>"



text \<open>
  \<open>for err := range errorChan\<close>: the first non-nil error ends the pass with a requeue
  after five seconds; a channel closed with no such error ends it with the zero result.
\<close>

fun range_errorChan :: "go_error option list \<Rightarrow> Result \<times> go_error option" where
  "range_errorChan [] = (Result_zero, None)"
| "range_errorChan (err # rest) =
     (case err of
        Some x \<Rightarrow>
          (\<lparr>Requeue = False, RequeueAfter = 5 * time_Second\<rparr>,
           Some (Err (''middleware not ready, Error: '' @ Error_msg x)))
      | None \<Rightarrow> range_errorChan rest)"









text \<open>
  A schedule is the list of the threads in the order in which they take their steps.
\<close>

datatype thread = Transport | Storage | Main




section \<open>pkg/transport/consumer: the data of the generic consumer\<close>

text \<open>
  A cloudevents \<open>Event\<close>: the attributes the consumer reads or sets, the data, and
  the chunk attributes (group key, index and total), which an event that is one chunk
  of a larger message carries and any other event lacks.
\<close>

record chunk_metadata =
  groupKey :: string
  chunk_index :: nat
  chunk_total :: nat

record Event =
  event_Source :: string
  event_Type :: string
  event_ID :: string
  event_DataContentType :: string
  event_Data :: string
  event_Chunk :: "chunk_metadata option"

datatype ceprotocol_Result = ResultACK | ResultNACK

text \<open>
  The receiver handed to the cloudevents client (an \<open>interface{}\<close> in the source):
  the Kafka protocol with the topics it subscribes to, or a Go channel pair, told apart
  by a number.
\<close>

datatype receiver = ConfluentProtocol "string list" | GoChan nat

datatype cloudevents_Client = Client receiver

record KafkaConfig =
  ClusterIdentity :: string

text \<open>
  \<open>transport.TransportConfig\<close>, with the fields the consumer reads. \<open>Extends\<close> is a
  Go map that may be nil (\<open>None\<close>).
\<close>

record TransportConfig =
  TransportType :: string
  KafkaConfig :: KafkaConfig
  Extends :: "(string \<rightharpoonup> receiver) option"

text \<open>
  \<open>GenericConsumer\<close>. \<open>eventChan\<close> holds the events written to the channel, oldest
  first. The state of the message assembler has the type \<open>'asm\<close>: the assembler is
  defined in another file of the package.
\<close>

record 'asm GenericConsumer =
  client :: cloudevents_Client
  assembler :: 'asm
  eventChan :: "Event list"
  consumeTopics :: "string list"
  clusterIdentity :: string
  enableDatabaseOffset :: bool

type_synonym 'asm GenericConsumeOption = "'asm GenericConsumer \<Rightarrow> go_error + 'asm GenericConsumer"

text \<open>
  What the consumer calls outside its file: the two transport-type constants
  (\<open>string(transport.Kafka)\<close>, \<open>string(transport.Chan)\<close>),
  \<open>config.GetConfluentConfigMap\<close>, \<open>kafka_confluent.New\<close>, \<open>gochan.New\<close>,
  \<open>cloudevents.NewClient\<close>, the assembler (\<open>newMessageAssembler\<close>,
  \<open>messageChunk\<close> with its pair (chunk, isChunk) as an option, \<open>assemble\<close> with the
  assembler's state passed through and a nil payload as \<open>None\<close>) and
  \<open>event.SetData\<close>, which gives the event with the new data or an error.
\<close>

record ('chunk, 'asm) consumer_env =
  transport_Kafka :: string
  transport_Chan :: string
  GetConfluentConfigMap :: "KafkaConfig \<Rightarrow> go_error + (string \<times> string) list"
  kafka_confluent_New :: "(string \<times> string) list \<Rightarrow> string list \<Rightarrow> go_error + receiver"
  gochan_New :: receiver
  cloudevents_NewClient :: "receiver \<Rightarrow> go_error + cloudevents_Client"
  newMessageAssembler :: 'asm
  messageChunk :: "Event \<Rightarrow> 'chunk option"
  assemble :: "'asm \<Rightarrow> 'chunk \<Rightarrow> string option \<times> 'asm"
  SetData :: "Event \<Rightarrow> string \<Rightarrow> go_error + Event"

section \<open>NewGenericConsumer and TransportID\<close>

definition EnableDatabaseOffset :: "bool \<Rightarrow> 'asm GenericConsumeOption" where
  "EnableDatabaseOffset enableOffset = (\<lambda>c. Inr (c\<lparr>enableDatabaseOffset := enableOffset\<rparr>))"

fun applyOptions :: "'asm GenericConsumer \<Rightarrow> 'asm GenericConsumeOption list \<Rightarrow> go_error + 'asm GenericConsumer" where
  "applyOptions c [] = Inr c"
| "applyOptions c (fn # opts) =
     (case fn c of
        Inl err \<Rightarrow> Inl err
      | Inr c1 \<Rightarrow> applyOptions c1 opts)"

definition getConfluentReceiverProtocol ::
  "('chunk, 'asm) consumer_env \<Rightarrow> TransportConfig \<Rightarrow> string list \<Rightarrow> go_error + receiver" where
  "getConfluentReceiverProtocol env transportConfig topics =
     (case GetConfluentConfigMap env (KafkaConfig transportConfig) of
        Inl err \<Rightarrow> Inl err
      | Inr configMap \<Rightarrow> kafka_confluent_New env configMap topics)"

text \<open>
  The switch of \<open>NewGenericConsumer\<close>: the receiver and the cluster identity for the
  transport type, or the error, with the configuration as the \<open>Chan\<close> case leaves it
  (the map \<open>Extends\<close> made when nil, and a new channel stored under the topic when
  the topic had none).
\<close>

definition select_receiver ::
  "('chunk, 'asm) consumer_env \<Rightarrow> TransportConfig \<Rightarrow> string list
     \<Rightarrow> (go_error + receiver \<times> string) \<times> TransportConfig" where
  "select_receiver env tranConfig topics =
     (if TransportType tranConfig = transport_Kafka env then
        (case getConfluentReceiverProtocol env tranConfig topics of
           Inl err \<Rightarrow> (Inl err, tranConfig)
         | Inr receiver \<Rightarrow> (Inr (receiver, ClusterIdentity (KafkaConfig tranConfig)), tranConfig))
      else if TransportType tranConfig = transport_Chan env then
        (let extends0 = (case Extends tranConfig of None \<Rightarrow> Map.empty | Some m \<Rightarrow> m);
             topic = (case topics of [] \<Rightarrow> ''event'' | t # ts \<Rightarrow> t)
         in case extends0 topic of
              None \<Rightarrow>
                (Inr (gochan_New env, ''kafka-cluster-chan''),
                 tranConfig\<lparr>Extends := Some (extends0(topic \<mapsto> gochan_New env))\<rparr>)
            | Some receiver \<Rightarrow>
                (Inr (receiver, ''kafka-cluster-chan''), tranConfig\<lparr>Extends := Some extends0\<rparr>))
      else
        (Inl (Err (''transport-type - '' @ TransportType tranConfig @ '' is not a valid option'')),
         tranConfig))"

text \<open>
  \<open>NewGenericConsumer\<close> takes the package-level variable \<open>transportID\<close> and returns
  it with the result and the configuration: the variable is assigned on the one path
  that returns a consumer, after the options were applied.
\<close>

definition NewGenericConsumer ::
  "('chunk, 'asm) consumer_env \<Rightarrow> TransportConfig \<Rightarrow> string list \<Rightarrow> 'asm GenericConsumeOption list
     \<Rightarrow> string \<Rightarrow> (go_error + 'asm GenericConsumer) \<times> TransportConfig \<times> string" where
  "NewGenericConsumer env tranConfig topics opts transportID =
     (case select_receiver env tranConfig topics of
        (Inl err, tranConfig1) \<Rightarrow> (Inl err, tranConfig1, transportID)
      | (Inr (receiver, identity), tranConfig1) \<Rightarrow>
          (case cloudevents_NewClient env receiver of
             Inl err \<Rightarrow> (Inl err, tranConfig1, transportID)
           | Inr cl \<Rightarrow>
               (let c = \<lparr>client = cl,
                         assembler = newMessageAssembler env,
                         eventChan = [],
                         consumeTopics = topics,
                         clusterIdentity = identity,
                         enableDatabaseOffset = False\<rparr>
                in case applyOptions c opts of
                     Inl err \<Rightarrow> (Inl err, tranConfig1, transportID)
                   | Inr c1 \<Rightarrow> (Inr c1, tranConfig1, identity))))"

definition TransportID :: "string \<Rightarrow> string" where
  "TransportID transportID = transportID"

section \<open>getInitOffset and Start\<close>

text \<open>
  \<open>transport.EventPosition\<close> as \<open>json.Unmarshal\<close> fills it, and
  \<open>kafka.TopicPartition\<close> with the three fields the consumer sets.
\<close>

record EventPosition =
  OwnerIdentity :: string
  Partition :: int
  Offset :: int

record TopicPartition =
  tp_Topic :: string
  tp_Partition :: int
  tp_Offset :: int

text \<open>
  A row of the table behind \<open>models.Transport\<close>: its name, and its JSON payload, of
  which two things are read: the text of the member \<open>ownerIdentity\<close>
  (\<open>payload->>'ownerIdentity'\<close> in the query, \<open>None\<close> for SQL's NULL when the member
  is missing), and what \<open>json.Unmarshal\<close> makes of it. The database is the rows of
  the table and the error, if any, that a query ends with.
\<close>

record transport_row =
  Name :: string
  payload_ownerIdentity :: "string option"
  payload_Unmarshal :: "go_error + EventPosition"

record database =
  transports :: "transport_row list"
  query_error :: "go_error option"

text \<open>
  \<open>name ~ '^status*'\<close>: in a POSIX regular expression the star repeats the last
  \<open>s\<close> alone and nothing anchors the end, so the pattern matches the names that begin
  with \<open>statu\<close>.
\<close>

definition matches_status_pattern :: "string \<Rightarrow> bool" where
  "matches_status_pattern name = (take 5 name = ''statu'')"

text \<open>
  The two \<open>Where\<close> clauses of the query. A comparison with NULL is not true.
\<close>

definition offset_query :: "string \<Rightarrow> transport_row \<Rightarrow> bool" where
  "offset_query kafkaClusterIdentity row =
     (matches_status_pattern (Name row) \<and>
      (case payload_ownerIdentity row of
         None \<Rightarrow> False
       | Some owner \<Rightarrow> owner \<noteq> [] \<and> owner = kafkaClusterIdentity))"

text \<open>
  The loop over \<open>positions\<close>, with \<open>offsetToStart\<close> as the accumulator.
\<close>

fun offsets_loop :: "transport_row list \<Rightarrow> TopicPartition list \<Rightarrow> go_error + TopicPartition list" where
  "offsets_loop [] offsetToStart = Inr offsetToStart"
| "offsets_loop (pos # positions) offsetToStart =
     (case payload_Unmarshal pos of
        Inl err \<Rightarrow> Inl err
      | Inr kafkaPosition \<Rightarrow>
          offsets_loop positions
            (offsetToStart @
               [\<lparr>tp_Topic = Name pos,
                 tp_Partition = Partition kafkaPosition,
                 tp_Offset = Offset kafkaPosition\<rparr>]))"

definition getInitOffset :: "database \<Rightarrow> string \<Rightarrow> go_error + TopicPartition list" where
  "getInitOffset db kafkaClusterIdentity =
     (case query_error db of
        Some err \<Rightarrow> Inl err
      | None \<Rightarrow> offsets_loop (filter (offset_query kafkaClusterIdentity) (transports db)) [])"

text \<open>
  The first part of \<open>Start\<close>: the context handed to \<open>StartReceiver\<close>. \<open>None\<close> is
  the caller's context as it came (the binding starts at its default position),
  \<open>Some offsets\<close> is \<open>kafka_confluent.WithTopicPartitionOffsets(ctx, offsets)\<close>.
\<close>

definition receiveContext :: "database \<Rightarrow> 'asm GenericConsumer \<Rightarrow> go_error + TopicPartition list option" where
  "receiveContext db c =
     (if enableDatabaseOffset c then
        (case getInitOffset db (clusterIdentity c) of
           Inl err \<Rightarrow> Inl err
         | Inr offsets \<Rightarrow> if length offsets > 0 then Inr (Some offsets) else Inr None)
      else Inr None)"

text \<open>
  The callback handed to \<open>StartReceiver\<close>: its result and the consumer it leaves.
\<close>

definition receive ::
  "('chunk, 'asm) consumer_env \<Rightarrow> 'asm GenericConsumer \<Rightarrow> Event \<Rightarrow> ceprotocol_Result \<times> 'asm GenericConsumer" where
  "receive env c event =
     (case messageChunk env event of
        None \<Rightarrow> (ResultACK, c\<lparr>eventChan := eventChan c @ [event]\<rparr>)
      | Some chunk \<Rightarrow>
          (case assemble env (assembler c) chunk of
             (Some payload, asm1) \<Rightarrow>
               (case SetData env event payload of
                  Inl err \<Rightarrow> (ResultACK, c\<lparr>assembler := asm1\<rparr>)
                | Inr event1 \<Rightarrow>
                    (ResultACK, c\<lparr>assembler := asm1, eventChan := eventChan c @ [event1]\<rparr>))
           | (None, asm1) \<Rightarrow> (ResultACK, c\<lparr>assembler := asm1\<rparr>)))"

text \<open>
  \<open>StartReceiver\<close> calls the callback once for every message the transport delivers,
  in order, and when the transport stops it returns the transport's error or nil.
  \<open>receive_loop\<close> gives the results of the calls and the consumer at the end.
\<close>

fun receive_loop ::
  "('chunk, 'asm) consumer_env \<Rightarrow> 'asm GenericConsumer \<Rightarrow> Event list
     \<Rightarrow> ceprotocol_Result list \<times> 'asm GenericConsumer" where
  "receive_loop env c [] = ([], c)"
| "receive_loop env c (event # events) =
     (case receive env c event of
        (res, c1) \<Rightarrow>
          (case receive_loop env c1 events of
             (ress, c2) \<Rightarrow> (res # ress, c2)))"

text \<open>
  \<open>Start\<close>, given the messages that arrive and the error the receiver ends with: the
  error returned, the context the receiver was started with (if it was), the results
  of the callback and the consumer at the end.
\<close>

definition Start ::
  "('chunk, 'asm) consumer_env \<Rightarrow> database \<Rightarrow> Event list \<Rightarrow> go_error option \<Rightarrow> 'asm GenericConsumer
     \<Rightarrow> go_error option \<times> TopicPartition list option option \<times> ceprotocol_Result list \<times> 'asm GenericConsumer" where
  "Start env db arrivals receiver_err c =
     (case receiveContext db c of
        Inl err \<Rightarrow> (Some err, None, [], c)
      | Inr ctx \<Rightarrow>
          (case receive_loop env c arrivals of
             (ress, c1) \<Rightarrow>
               (case receiver_err of
                  Some err \<Rightarrow> (Some (Wrapped ''failed to start Receiver: '' err), Some ctx, ress, c1)
                | None \<Rightarrow> (None, Some ctx, ress, c1))))"

section \<open>The provisioning sequence as the specification words it\<close>

text \<open>
  A sequence of steps, each a call with the error it returns (\<open>None\<close> for success):
  the steps run in order, and a step that fails aborts the sequence and gives its
  error. \<open>spec_run_steps\<close> returns the calls made and the error, if any.
\<close>

fun spec_run_steps :: "(call \<times> go_error option) list \<Rightarrow> call list \<times> go_error option" where
  "spec_run_steps [] = ([], None)"
| "spec_run_steps ((c, res) # rest) =
     (case res of
        Some err \<Rightarrow> ([c], Some err)
      | None \<Rightarrow> (case spec_run_steps rest of (cs, res') \<Rightarrow> (c # cs, res')))"

text \<open>
  The steps before the credential is polled: create the default principal, derive the
  topic set for the hub's own identity, create the topics, grant Read on the event and
  the status topic and Write on the spec topic.
\<close>

definition spec_managed_steps :: "Transporter \<Rightarrow> string \<Rightarrow> string \<Rightarrow> (call \<times> go_error option) list" where
  "spec_managed_steps tr user cluster =
     (let topics = GenerateClusterTopic tr cluster in
      [(CallCreateUser user, CreateUser tr user),
       (CallGenerateClusterTopic cluster, None),
       (CallCreateTopic topics, CreateTopic tr topics),
       (CallGrantRead user (EventTopic topics), GrantRead tr user (EventTopic topics)),
       (CallGrantRead user (StatusTopic topics), GrantRead tr user (StatusTopic topics)),
       (CallGrantWrite user (SpecTopic topics), GrantWrite tr user (SpecTopic topics))])"

text \<open>
  The calls that render and apply the broker's metric resources.
\<close>

definition is_metrics_call :: "call \<Rightarrow> bool" where
  "is_metrics_call c = (c = CallRender \<or> c = CallNewDiscoveryClientForConfig \<or> c = CallManipulateObj)"

section \<open>Passes one after the other\<close>

text \<open>
  The host calls \<open>ReconcileMiddleware\<close> again only after the call before has
  returned, but the goroutines of that call may still be running then. The system is
  the calls made so far with the reconciler they share. An event is a new call (taken
  only when every earlier call has returned), or a step of a thread of the call with
  the given number.
\<close>

datatype event = Reconcile env storage_env | Run nat thread






section \<open>The goroutines at a point of a schedule\<close>













section \<open>Values to run the operator on\<close>

definition example_topics :: "string \<Rightarrow> ClusterTopic" where
  "example_topics cluster =
     \<lparr>SpecTopic = ''spec'', StatusTopic = ''status.'' @ cluster, EventTopic = ''event''\<rparr>"

text \<open>
  A transporter whose \<open>CreateUser\<close> returns \<open>user_result\<close>, whose \<open>GrantRead\<close>
  returns \<open>read_result\<close> of the topic, and whose credential is ready from the tick
  \<open>ready_at\<close> on.
\<close>

definition example_transporter :: "go_error option \<Rightarrow> (string \<Rightarrow> go_error option) \<Rightarrow> nat \<Rightarrow> Transporter" where
  "example_transporter user_result read_result ready_at =
     \<lparr>CreateUser = (\<lambda>user. user_result),
      GenerateClusterTopic = example_topics,
      CreateTopic = (\<lambda>topics. None),
      GrantRead = (\<lambda>user topic. read_result topic),
      GrantWrite = (\<lambda>user topic. None),
      GetConnCredential = (\<lambda>tick user.
        if tick < ready_at then (None, Some (Err ''the kafka user is not ready''))
        else (Some (ConnCredential ''kafka-bootstrap:9092''), None))\<rparr>"

definition example_env :: "go_error option \<Rightarrow> bool \<Rightarrow> Transporter \<Rightarrow> KafkaController option \<Rightarrow> env" where
  "example_env secret metrics tr controller =
     \<lparr>secret_Get = secret,
      EnableMetrics = metrics,
      Render = None,
      NewDiscoveryClientForConfig = None,
      manipulateObj = None,
      NewStrimziTransporter = Inr tr,
      NewBYOTransporter = tr,
      DefaultGlobalHubKafkaUser = ''global-hub-kafka-user'',
      GlobalHubClusterName = ''global'',
      addKafkaCRDController = None,
      KafkaController = controller\<rparr>"

definition new_reconciler :: reconciler where
  "new_reconciler =
     \<lparr>KafkaInit = False, TransportConn = None, StorageConn = None,
      config_transporter = None, calls = []\<rparr>"


section \<open>The naming convention of the status topics\<close>

text \<open>
  The status topics are named after the pattern that the comment in
  \<open>ReconcileTransport\<close> gives for the manager's subscription, \<open>^status.*\<close>: the names
  that begin with \<open>status\<close>.
\<close>

definition status_topic_name :: "string \<Rightarrow> bool" where
  "status_topic_name name = (take 6 name = ''status'')"

section \<open>Values to run the consumer on\<close>

text \<open>
  Modelled from the spec: the message assembler (\<open>newMessageAssembler\<close>,
  \<open>messageChunk\<close>, \<open>assemble\<close>) is in a file of the package that is not among the
  sources. Where the consumer is run on values, the ChunkAssembler of the
  specification stands in for it: on a chunk, take the assembly state of the group
  (create one if there is none), record the bytes at the index, a second delivery of an
  index replacing the first; if the number of recorded indices equals the total,
  concatenate in index order, remove the state and return the payload; otherwise
  return nothing. An assembly state is the list of the recorded indices with their
  bytes.
\<close>

type_synonym ChunkAssembler = "(string \<times> (nat \<times> string) list) list"

definition onChunk :: "ChunkAssembler \<Rightarrow> chunk_metadata \<times> string \<Rightarrow> string option \<times> ChunkAssembler" where
  "onChunk asm chunk =
     (case chunk of (meta, bytes) \<Rightarrow>
        (let state = (case map_of asm (groupKey meta) of None \<Rightarrow> [] | Some st \<Rightarrow> st);
             recorded = AList.update (chunk_index meta) bytes state
         in if length recorded = chunk_total meta
            then (Some (concat (map snd (sort_key fst recorded))), AList.delete (groupKey meta) asm)
            else (None, AList.update (groupKey meta) recorded asm)))"

definition chunk_of_event :: "Event \<Rightarrow> (chunk_metadata \<times> string) option" where
  "chunk_of_event event =
     (case event_Chunk event of
        None \<Rightarrow> None
      | Some meta \<Rightarrow> Some (meta, event_Data event))"

text \<open>
  \<open>SetData\<close> as it succeeds, and a consumer environment with a given \<open>SetData\<close>.
\<close>

definition set_json_data :: "Event \<Rightarrow> string \<Rightarrow> go_error + Event" where
  "set_json_data event payload =
     Inr (event\<lparr>event_DataContentType := ''application/json'', event_Data := payload\<rparr>)"

definition example_consumer_env ::
  "(Event \<Rightarrow> string \<Rightarrow> go_error + Event) \<Rightarrow> (chunk_metadata \<times> string, ChunkAssembler) consumer_env" where
  "example_consumer_env set_data =
     \<lparr>transport_Kafka = ''kafka'',
      transport_Chan = ''chan'',
      GetConfluentConfigMap = (\<lambda>kafkaConfig. Inr [(''bootstrap.servers'', ''kafka-bootstrap:9092'')]),
      kafka_confluent_New = (\<lambda>configMap topics. Inr (ConfluentProtocol topics)),
      gochan_New = GoChan 0,
      cloudevents_NewClient = (\<lambda>receiver. Inr (Client receiver)),
      newMessageAssembler = [],
      messageChunk = chunk_of_event,
      assemble = onChunk,
      SetData = set_data\<rparr>"

definition example_consumer :: "ChunkAssembler GenericConsumer" where
  "example_consumer =
     \<lparr>client = Client (ConfluentProtocol [''status.hub1'']),
      assembler = [],
      eventChan = [],
      consumeTopics = [''status.hub1''],
      clusterIdentity = ''cluster-x'',
      enableDatabaseOffset = True\<rparr>"

definition example_event :: "string \<Rightarrow> string \<Rightarrow> chunk_metadata option \<Rightarrow> Event" where
  "example_event ident bytes chunk =
     \<lparr>event_Source = ''hub1'',
      event_Type = ''ManagedClusters'',
      event_ID = ident,
      event_DataContentType = ''application/json'',
      event_Data = bytes,
      event_Chunk = chunk\<rparr>"

definition example_row :: "string \<Rightarrow> string option \<Rightarrow> int \<Rightarrow> int \<Rightarrow> transport_row" where
  "example_row topic owner part off =
     \<lparr>Name = topic,
      payload_ownerIdentity = owner,
      payload_Unmarshal =
        Inr \<lparr>OwnerIdentity = (case owner of None \<Rightarrow> [] | Some ident \<Rightarrow> ident),
             Partition = part, Offset = off\<rparr>\<rparr>"

section \<open>Protocol detection: properties\<close>

text \<open>
  C4. \<open>detectTransportProtocol\<close> returns the bring-your-own protocol (with a nil
  error) if and only if the transport secret was found; it returns the managed protocol
  exactly when the lookup reports not-found, then with a nil error; and a lookup error
  that is not a not-found error comes back unchanged, as a non-nil error.
\<close>

theorem detectTransportProtocol_cases:
  "(detectTransportProtocol g = (SecretTransporter, None) \<longleftrightarrow> g = None)
   \<and> (fst (detectTransportProtocol g) = StrimziTransporter
        \<longleftrightarrow> (\<exists>err. g = Some err \<and> IsNotFound err))
   \<and> (detectTransportProtocol g = (StrimziTransporter, None)
        \<longleftrightarrow> (\<exists>err. g = Some err \<and> IsNotFound err))
   \<and> (\<forall>err. g = Some err \<and> \<not> IsNotFound err
        \<longrightarrow> snd (detectTransportProtocol g) = Some err)
   \<and> (snd (detectTransportProtocol g) \<noteq> None
        \<longleftrightarrow> (\<exists>err. g = Some err \<and> \<not> IsNotFound err))"
  by (cases g) (auto simp: detectTransportProtocol_def)

theorem detectTransportProtocol_cases_witness:
  "detectTransportProtocol None = (SecretTransporter, None)
   \<and> detectTransportProtocol (Some (ApiNotFound ''secret not found'')) = (StrimziTransporter, None)
   \<and> \<not> IsNotFound (Err ''connection refused'')
   \<and> snd (detectTransportProtocol (Some (Err ''connection refused''))) = Some (Err ''connection refused'')"
  using detectTransportProtocol_cases [of "Some (Err ''connection refused'')"]
    detectTransportProtocol_cases [of "None"]
    detectTransportProtocol_cases [of "Some (ApiNotFound ''secret not found'')"]
  by simp

section \<open>Helper facts\<close>


lemma credential_poll_once:
  "PollUntilContextTimeout interval timeout True (credential_condition tr user) (c0, r) =
     (case GetConnCredential tr 0 user of
        (conn, Some x) \<Rightarrow>
          (Some x, (conn, emit (LogInfo ''waiting the kafka connection credential to be ready...'')
                            (emit (CallGetConnCredential user) r)))
      | (conn, None) \<Rightarrow> (None, (conn, emit (CallGetConnCredential user) r)))"
  by (simp add: PollUntilContextTimeout_def credential_condition_def Let_def
      split: prod.splits option.splits)

lemma spec_run_steps_take:
  "spec_run_steps steps = (cs, res) \<Longrightarrow> take (length cs) (map fst steps) = cs"
  by (induction steps arbitrary: cs res) (auto split: option.splits prod.splits)

lemma spec_run_steps_None:
  "spec_run_steps steps = (cs, None) \<Longrightarrow> cs = map fst steps \<and> (\<forall>s \<in> set steps. snd s = None)"
  by (induction steps arbitrary: cs) (fastforce split: option.splits prod.splits)+

lemma spec_run_steps_Some:
  "spec_run_steps steps = (cs, Some err) \<Longrightarrow>
     cs \<noteq> [] \<and> snd (steps ! (length cs - 1)) = Some err"
proof (induction steps arbitrary: cs)
  case Nil
  then show ?case by simp
next
  case (Cons a steps)
  obtain c x where a: "a = (c, x)" by (cases a)
  show ?case
  proof (cases x)
    case (Some y)
    with Cons.prems a show ?thesis by auto
  next
    case None
    obtain cs' res' where r: "spec_run_steps steps = (cs', res')" by (cases "spec_run_steps steps")
    from Cons.prems a None r have cs: "cs = c # cs'" and res: "res' = Some err" by auto
    from Cons.IH [OF r [unfolded res]] have ne: "cs' \<noteq> []"
      and last: "snd (steps ! (length cs' - 1)) = Some err" by auto
    from ne have "(a # steps) ! (length cs - 1) = steps ! (length cs' - 1)"
      using cs by (cases cs') auto
    then show ?thesis using cs last by simp
  qed
qed

lemma spec_run_steps_before:
  "spec_run_steps steps = (cs, res) \<Longrightarrow> i < length cs - 1 \<Longrightarrow> snd (steps ! i) = None"
proof (induction steps arbitrary: cs res i)
  case Nil
  then show ?case by simp
next
  case (Cons a steps)
  obtain c x where a: "a = (c, x)" by (cases a)
  show ?case
  proof (cases x)
    case (Some y)
    with Cons.prems a show ?thesis by auto
  next
    case None
    obtain cs' res' where r: "spec_run_steps steps = (cs', res')" by (cases "spec_run_steps steps")
    from Cons.prems(1) a None r have cs: "cs = c # cs'" by auto
    show ?thesis
    proof (cases i)
      case 0
      then show ?thesis using a None by simp
    next
      case (Suc j)
      with Cons.prems(2) cs have "j < length cs' - 1" by simp
      from Cons.IH [OF r this] show ?thesis using Suc by simp
    qed
  qed
qed

lemma spec_run_steps_prefix:
  "spec_run_steps steps = (cs, res) \<Longrightarrow>
     cs = take (length cs) (map fst steps)
     \<and> (\<forall>i < length cs - 1. snd (steps ! i) = None)
     \<and> (res \<noteq> None \<longrightarrow> cs \<noteq> [] \<and> res = snd (steps ! (length cs - 1)))
     \<and> (res = None \<longrightarrow> cs = map fst steps \<and> (\<forall>s \<in> set steps. snd s = None))"
  using spec_run_steps_take [of steps cs res] spec_run_steps_None [of steps cs]
    spec_run_steps_Some [of steps cs] spec_run_steps_before [of steps cs res]
  by (cases res) simp_all

lemma ReconcileTransport_steps:
  assumes "renderKafkaMetricsResources e r = (None, r1)"
      and "new_transporter e p r1 = (Inr tr, r2)"
  shows "ReconcileTransport e p r =
     (case spec_run_steps (spec_managed_steps tr (DefaultGlobalHubKafkaUser e) (GlobalHubClusterName e)) of
        (cs, Some err) \<Rightarrow> ((None, Some err), r2\<lparr>calls := calls r2 @ cs\<rparr>)
      | (cs, None) \<Rightarrow>
          (case PollUntilContextTimeout (2 * time_Second) (10 * time_Minute) True
                  (credential_condition tr (DefaultGlobalHubKafkaUser e))
                  (None, r2\<lparr>calls := calls r2 @ cs\<rparr>) of
             (err, (conn, r9)) \<Rightarrow>
               ((conn, err), (emit CallSetTransporter r9)\<lparr>config_transporter := Some tr\<rparr>)))"
  using assms
  by (simp add: ReconcileTransport_def spec_managed_steps_def Let_def emit_def
      split: option.splits prod.splits)

section \<open>ReconcileTransport: the provisioning sequence\<close>

text \<open>
  C1. On the managed path (the metric resources ensured, the Strimzi transporter
  created), \<open>ReconcileTransport\<close> runs the steps of the specification's sequence in
  their order: create the default principal, derive the topic set for the hub's own
  identity, create the topics, grant Read on the event topic and on the status topic
  and Write on the spec topic. The calls it makes are a prefix of that list; every step
  before the last one made succeeded; when a step fails it is the last call made, and
  the function returns that step's error with a nil credential; when no step fails all
  were made, and the credential is polled next: \<open>GetConnCredential\<close> is called for
  the default principal after the six steps, the function returns the credential and
  the error that call gave (an error is logged first), and the only call after the
  poll is \<open>config.SetTransporter\<close>.
\<close>

theorem ReconcileTransport_managed_sequence:
  assumes "renderKafkaMetricsResources e r = (None, r1)"
      and "NewStrimziTransporter e = Inr tr"
  shows "(let steps = spec_managed_steps tr (DefaultGlobalHubKafkaUser e) (GlobalHubClusterName e);
              cs = fst (spec_run_steps steps);
              res = snd (spec_run_steps steps);
              r2 = r1\<lparr>calls := calls r1 @ CallNewStrimziTransporter # cs\<rparr>
          in cs = take (length cs) (map fst steps)
             \<and> (\<forall>i < length cs - 1. snd (steps ! i) = None)
             \<and> (res \<noteq> None \<longrightarrow>
                  cs \<noteq> [] \<and> res = snd (steps ! (length cs - 1))
                  \<and> ReconcileTransport e StrimziTransporter r = ((None, res), r2))
             \<and> (res = None \<longrightarrow>
                  cs = map fst steps
                  \<and> ReconcileTransport e StrimziTransporter r =
                      (case GetConnCredential tr 0 (DefaultGlobalHubKafkaUser e) of
                         (conn, err) \<Rightarrow>
                           ((conn, err),
                            r2\<lparr>calls := calls r2 @
                                   CallGetConnCredential (DefaultGlobalHubKafkaUser e) #
                                   (case err of
                                      Some x \<Rightarrow>
                                        [LogInfo ''waiting the kafka connection credential to be ready...'']
                                    | None \<Rightarrow> []) @
                                   [CallSetTransporter],
                               config_transporter := Some tr\<rparr>))))"
proof -
  define steps where "steps = spec_managed_steps tr (DefaultGlobalHubKafkaUser e) (GlobalHubClusterName e)"
  obtain cs res where run: "spec_run_steps steps = (cs, res)" by (cases "spec_run_steps steps")
  have nt: "new_transporter e StrimziTransporter r1 = (Inr tr, emit CallNewStrimziTransporter r1)"
    using assms(2) by (simp add: new_transporter_def)
  have eq: "(emit CallNewStrimziTransporter r1)\<lparr>calls := calls (emit CallNewStrimziTransporter r1) @ cs\<rparr>
            = r1\<lparr>calls := calls r1 @ CallNewStrimziTransporter # cs\<rparr>"
    by (simp add: emit_def)
  note shape = spec_run_steps_prefix [OF run]
  note code = ReconcileTransport_steps [OF assms(1) nt, folded steps_def, unfolded run eq]
  show ?thesis
    unfolding Let_def steps_def [symmetric] run fst_conv snd_conv
    using shape code
    by (cases res) (auto simp: emit_def credential_poll_once split: prod.splits option.splits)
qed

text \<open>
  A grant that fails; every step succeeding and the credential ready; every step
  succeeding and the credential not ready.
\<close>

theorem ReconcileTransport_managed_sequence_witness:
  "ReconcileTransport
     (example_env (Some (ApiNotFound ''not found'')) False
        (example_transporter None
           (\<lambda>topic. if topic = ''status.global'' then Some (Err ''acl denied'') else None) 0)
        None)
     StrimziTransporter new_reconciler =
   ((None, Some (Err ''acl denied'')),
    new_reconciler\<lparr>calls :=
      [CallNewStrimziTransporter,
       CallCreateUser ''global-hub-kafka-user'',
       CallGenerateClusterTopic ''global'',
       CallCreateTopic (example_topics ''global''),
       CallGrantRead ''global-hub-kafka-user'' ''event'',
       CallGrantRead ''global-hub-kafka-user'' ''status.global'']\<rparr>)
   \<and> ReconcileTransport
       (example_env (Some (ApiNotFound ''not found'')) False
          (example_transporter None (\<lambda>topic. None) 0) None)
       StrimziTransporter new_reconciler =
     ((Some (ConnCredential ''kafka-bootstrap:9092''), None),
      new_reconciler\<lparr>calls :=
        [CallNewStrimziTransporter,
         CallCreateUser ''global-hub-kafka-user'',
         CallGenerateClusterTopic ''global'',
         CallCreateTopic (example_topics ''global''),
         CallGrantRead ''global-hub-kafka-user'' ''event'',
         CallGrantRead ''global-hub-kafka-user'' ''status.global'',
         CallGrantWrite ''global-hub-kafka-user'' ''spec'',
         CallGetConnCredential ''global-hub-kafka-user'',
         CallSetTransporter],
        config_transporter := Some (example_transporter None (\<lambda>topic. None) 0)\<rparr>)
   \<and> ReconcileTransport
       (example_env (Some (ApiNotFound ''not found'')) False
          (example_transporter None (\<lambda>topic. None) 3) None)
       StrimziTransporter new_reconciler =
     ((None, Some (Err ''the kafka user is not ready'')),
      new_reconciler\<lparr>calls :=
        [CallNewStrimziTransporter,
         CallCreateUser ''global-hub-kafka-user'',
         CallGenerateClusterTopic ''global'',
         CallCreateTopic (example_topics ''global''),
         CallGrantRead ''global-hub-kafka-user'' ''event'',
         CallGrantRead ''global-hub-kafka-user'' ''status.global'',
         CallGrantWrite ''global-hub-kafka-user'' ''spec'',
         CallGetConnCredential ''global-hub-kafka-user'',
         LogInfo ''waiting the kafka connection credential to be ready...'',
         CallSetTransporter],
        config_transporter := Some (example_transporter None (\<lambda>topic. None) 3)\<rparr>)"
proof -
  have 1: "ReconcileTransport
     (example_env (Some (ApiNotFound ''not found'')) False
        (example_transporter None
           (\<lambda>topic. if topic = ''status.global'' then Some (Err ''acl denied'') else None) 0)
        None)
     StrimziTransporter new_reconciler =
   ((None, Some (Err ''acl denied'')),
    new_reconciler\<lparr>calls :=
      [CallNewStrimziTransporter,
       CallCreateUser ''global-hub-kafka-user'',
       CallGenerateClusterTopic ''global'',
       CallCreateTopic (example_topics ''global''),
       CallGrantRead ''global-hub-kafka-user'' ''event'',
       CallGrantRead ''global-hub-kafka-user'' ''status.global'']\<rparr>)"
    using ReconcileTransport_managed_sequence
      [of "example_env (Some (ApiNotFound ''not found'')) False
             (example_transporter None
                (\<lambda>topic. if topic = ''status.global'' then Some (Err ''acl denied'') else None) 0)
             None"
          new_reconciler new_reconciler
          "example_transporter None
             (\<lambda>topic. if topic = ''status.global'' then Some (Err ''acl denied'') else None) 0"]
    by (simp add: renderKafkaMetricsResources_def example_env_def example_transporter_def
        example_topics_def spec_managed_steps_def new_reconciler_def Let_def)
  have 2: "ReconcileTransport
       (example_env (Some (ApiNotFound ''not found'')) False
          (example_transporter None (\<lambda>topic. None) 0) None)
       StrimziTransporter new_reconciler =
     ((Some (ConnCredential ''kafka-bootstrap:9092''), None),
      new_reconciler\<lparr>calls :=
        [CallNewStrimziTransporter,
         CallCreateUser ''global-hub-kafka-user'',
         CallGenerateClusterTopic ''global'',
         CallCreateTopic (example_topics ''global''),
         CallGrantRead ''global-hub-kafka-user'' ''event'',
         CallGrantRead ''global-hub-kafka-user'' ''status.global'',
         CallGrantWrite ''global-hub-kafka-user'' ''spec'',
         CallGetConnCredential ''global-hub-kafka-user'',
         CallSetTransporter],
        config_transporter := Some (example_transporter None (\<lambda>topic. None) 0)\<rparr>)"
    using ReconcileTransport_managed_sequence
      [of "example_env (Some (ApiNotFound ''not found'')) False
             (example_transporter None (\<lambda>topic. None) 0) None"
          new_reconciler new_reconciler
          "example_transporter None (\<lambda>topic. None) 0"]
    by (simp add: renderKafkaMetricsResources_def example_env_def example_transporter_def
        example_topics_def spec_managed_steps_def new_reconciler_def Let_def)
  have 3: "ReconcileTransport
       (example_env (Some (ApiNotFound ''not found'')) False
          (example_transporter None (\<lambda>topic. None) 3) None)
       StrimziTransporter new_reconciler =
     ((None, Some (Err ''the kafka user is not ready'')),
      new_reconciler\<lparr>calls :=
        [CallNewStrimziTransporter,
         CallCreateUser ''global-hub-kafka-user'',
         CallGenerateClusterTopic ''global'',
         CallCreateTopic (example_topics ''global''),
         CallGrantRead ''global-hub-kafka-user'' ''event'',
         CallGrantRead ''global-hub-kafka-user'' ''status.global'',
         CallGrantWrite ''global-hub-kafka-user'' ''spec'',
         CallGetConnCredential ''global-hub-kafka-user'',
         LogInfo ''waiting the kafka connection credential to be ready...'',
         CallSetTransporter],
        config_transporter := Some (example_transporter None (\<lambda>topic. None) 3)\<rparr>)"
    using ReconcileTransport_managed_sequence
      [of "example_env (Some (ApiNotFound ''not found'')) False
             (example_transporter None (\<lambda>topic. None) 3) None"
          new_reconciler new_reconciler
          "example_transporter None (\<lambda>topic. None) 3"]
    by (simp add: renderKafkaMetricsResources_def example_env_def example_transporter_def
        example_topics_def spec_managed_steps_def new_reconciler_def Let_def)
  from 1 2 3 show ?thesis by blast
qed

lemma renderKafkaMetricsResources_calls:
  "calls (snd (renderKafkaMetricsResources e r)) =
     calls r @
       (if EnableMetrics e then
          CallRender #
            (if Render e = None then
               CallNewDiscoveryClientForConfig #
                 (if NewDiscoveryClientForConfig e = None then [CallManipulateObj] else [])
             else [])
        else [])"
  by (simp add: renderKafkaMetricsResources_def Let_def emit_def split: option.splits)

lemma renderKafkaMetricsResources_ok:
  "fst (renderKafkaMetricsResources e r) = None \<longleftrightarrow>
     (EnableMetrics e \<longrightarrow> Render e = None \<and> NewDiscoveryClientForConfig e = None \<and> manipulateObj e = None)"
  by (simp add: renderKafkaMetricsResources_def Let_def split: option.splits)

lemma ReconcileTransport_calls_after_render:
  "\<exists>rest. calls (snd (ReconcileTransport e p r)) = calls (snd (renderKafkaMetricsResources e r)) @ rest
     \<and> (\<forall>c \<in> set rest. \<not> is_metrics_call c)"
proof (cases "renderKafkaMetricsResources e r")
  case (Pair res r1)
  show ?thesis
  proof (cases res)
    case (Some err)
    with Pair show ?thesis by (simp add: ReconcileTransport_def)
  next
    case None
    show ?thesis
    proof (cases "fst (new_transporter e p r1)")
      case (Inl err)
      then have "new_transporter e p r1 = (Inl err, emit (if p = StrimziTransporter then CallNewStrimziTransporter else CallNewBYOTransporter) r1)"
        by (cases p) (auto simp: new_transporter_def)
      with Pair None show ?thesis
        by (simp add: ReconcileTransport_def emit_def is_metrics_call_def)
    next
      case (Inr tr)
      define r2 where "r2 = snd (new_transporter e p r1)"
      have nt: "new_transporter e p r1 = (Inr tr, r2)" using Inr r2_def by (cases "new_transporter e p r1") auto
      have c2: "calls r2 = calls r1 @ [if p = StrimziTransporter then CallNewStrimziTransporter else CallNewBYOTransporter]"
        unfolding r2_def by (cases p) (auto simp: new_transporter_def emit_def)
      obtain cs res' where run: "spec_run_steps (spec_managed_steps tr (DefaultGlobalHubKafkaUser e) (GlobalHubClusterName e)) = (cs, res')"
        by (cases "spec_run_steps (spec_managed_steps tr (DefaultGlobalHubKafkaUser e) (GlobalHubClusterName e))")
      have "set cs \<subseteq> set (map fst (spec_managed_steps tr (DefaultGlobalHubKafkaUser e) (GlobalHubClusterName e)))"
        using spec_run_steps_take [OF run] set_take_subset by metis
      then have cs: "\<forall>c \<in> set cs. \<not> is_metrics_call c"
        by (auto simp: spec_managed_steps_def Let_def is_metrics_call_def)
      show ?thesis
        using ReconcileTransport_steps [OF Pair [unfolded None] nt] run c2 cs Pair None
        by (cases res') (auto simp: credential_poll_once emit_def is_metrics_call_def split: prod.splits option.splits)
    qed
  qed
qed

lemma new_transporter_calls:
  "calls (snd (new_transporter e p r)) =
     calls r @ [case p of StrimziTransporter \<Rightarrow> CallNewStrimziTransporter
                        | SecretTransporter \<Rightarrow> CallNewBYOTransporter]"
  by (cases p) (simp_all add: new_transporter_def emit_def)

lemma new_transporter_frame:
  "config_transporter (snd (new_transporter e p r)) = config_transporter r"
  "fst (new_transporter e p r') = fst (new_transporter e p r)"
  by (cases p; simp add: new_transporter_def emit_def)+

lemma renderKafkaMetricsResources_frame:
  "config_transporter (snd (renderKafkaMetricsResources e r)) = config_transporter r"
  by (simp add: renderKafkaMetricsResources_def Let_def emit_def split: option.splits)

section \<open>ReconcileTransport: the metric resources\<close>

text \<open>
  C8 (amended). \<open>ReconcileTransport\<close> ensures the broker's metric resources on both
  paths, the managed one and the bring-your-own one, gated by the metrics flag alone.
  A call only adds to the calls made before. With the flag off, no call renders or
  applies. With the flag on, the first call renders. On every path the calls that render
  and apply come before all the others (the creation of the transporter and the user,
  topic, grant and credential calls); and with the flag on and the resources ensured
  without error, they are exactly: render, create the discovery client, apply.
\<close>

theorem metrics_resources_first_and_flag_gated:
  "(let before = calls r;
        after = calls (snd (ReconcileTransport e p r));
        new = drop (length before) after
    in take (length before) after = before
       \<and> (\<not> EnableMetrics e \<longrightarrow> (\<forall>c \<in> set new. \<not> is_metrics_call c))
       \<and> (EnableMetrics e \<longrightarrow> new \<noteq> [] \<and> hd new = CallRender)
       \<and> (\<forall>c \<in> set (dropWhile is_metrics_call new). \<not> is_metrics_call c)
       \<and> (EnableMetrics e \<and> fst (renderKafkaMetricsResources e r) = None \<longrightarrow>
            takeWhile is_metrics_call new =
              [CallRender, CallNewDiscoveryClientForConfig, CallManipulateObj]))"
proof -
  define ms where "ms =
       (if EnableMetrics e then
          CallRender #
            (if Render e = None then
               CallNewDiscoveryClientForConfig #
                 (if NewDiscoveryClientForConfig e = None then [CallManipulateObj] else [])
             else [])
        else [])"
  obtain rest where after: "calls (snd (ReconcileTransport e p r)) = calls r @ ms @ rest"
    and rest: "\<forall>c \<in> set rest. \<not> is_metrics_call c"
    using ReconcileTransport_calls_after_render [of e p r]
    unfolding renderKafkaMetricsResources_calls ms_def by auto
  have ms: "\<forall>c \<in> set ms. is_metrics_call c"
    by (auto simp: ms_def is_metrics_call_def)
  have new: "drop (length (calls r)) (calls (snd (ReconcileTransport e p r))) = ms @ rest"
    using after by simp
  have 1: "take (length (calls r)) (calls (snd (ReconcileTransport e p r))) = calls r"
    using after by simp
  have 2: "\<not> EnableMetrics e \<longrightarrow> (\<forall>c \<in> set (ms @ rest). \<not> is_metrics_call c)"
    using rest by (simp add: ms_def)
  have 3: "EnableMetrics e \<longrightarrow> ms @ rest \<noteq> [] \<and> hd (ms @ rest) = CallRender"
    by (simp add: ms_def)
  have "dropWhile is_metrics_call (ms @ rest) = dropWhile is_metrics_call rest"
    using ms by simp
  then have 4: "\<forall>c \<in> set (dropWhile is_metrics_call (ms @ rest)). \<not> is_metrics_call c"
    using rest set_dropWhileD by fastforce
  have tw: "takeWhile is_metrics_call rest = []"
    using rest by (cases rest) auto
  have twms: "takeWhile is_metrics_call (ms @ rest) = ms"
    using ms tw by simp
  have "EnableMetrics e \<and> fst (renderKafkaMetricsResources e r) = None \<longrightarrow>
      ms = [CallRender, CallNewDiscoveryClientForConfig, CallManipulateObj]"
    by (simp add: renderKafkaMetricsResources_ok ms_def)
  then have 5: "EnableMetrics e \<and> fst (renderKafkaMetricsResources e r) = None \<longrightarrow>
      takeWhile is_metrics_call (ms @ rest) =
        [CallRender, CallNewDiscoveryClientForConfig, CallManipulateObj]"
    unfolding twms by blast
  show ?thesis
    unfolding Let_def new using 1 2 3 4 5 by blast
qed

text \<open>
  The flag on (on the bring-your-own path) and the flag off (on the managed path).
\<close>

theorem metrics_resources_first_and_flag_gated_witness:
  "EnableMetrics (example_env None True (example_transporter None (\<lambda>topic. None) 0) None)
   \<and> fst (renderKafkaMetricsResources
            (example_env None True (example_transporter None (\<lambda>topic. None) 0) None) new_reconciler) = None
   \<and> takeWhile is_metrics_call
       (calls (snd (ReconcileTransport
          (example_env None True (example_transporter None (\<lambda>topic. None) 0) None)
          SecretTransporter new_reconciler))) =
       [CallRender, CallNewDiscoveryClientForConfig, CallManipulateObj]
   \<and> \<not> EnableMetrics (example_env None False (example_transporter None (\<lambda>topic. None) 0) None)
   \<and> filter is_metrics_call (calls (snd (ReconcileTransport
          (example_env None False (example_transporter None (\<lambda>topic. None) 0) None)
          StrimziTransporter new_reconciler))) = []"
proof -
  let ?on = "example_env None True (example_transporter None (\<lambda>topic. None) 0) None"
  let ?off = "example_env None False (example_transporter None (\<lambda>topic. None) 0) None"
  have c0: "calls new_reconciler = []"
    by (simp add: new_reconciler_def)
  have a: "EnableMetrics ?on"
    by (simp add: example_env_def)
  have b: "fst (renderKafkaMetricsResources ?on new_reconciler) = None"
    by (simp add: renderKafkaMetricsResources_ok example_env_def)
  have d: "\<not> EnableMetrics ?off"
    by (simp add: example_env_def)
  note on = metrics_resources_first_and_flag_gated
      [of new_reconciler ?on SecretTransporter, unfolded Let_def c0 list.size drop_0]
  note off = metrics_resources_first_and_flag_gated
      [of new_reconciler ?off StrimziTransporter, unfolded Let_def c0 list.size drop_0]
  from on a b have 1: "takeWhile is_metrics_call
       (calls (snd (ReconcileTransport ?on SecretTransporter new_reconciler))) =
       [CallRender, CallNewDiscoveryClientForConfig, CallManipulateObj]"
    by blast
  from off d have "\<forall>c \<in> set (calls (snd (ReconcileTransport ?off StrimziTransporter new_reconciler))).
       \<not> is_metrics_call c"
    by blast
  then have 2: "filter is_metrics_call
       (calls (snd (ReconcileTransport ?off StrimziTransporter new_reconciler))) = []"
    by (simp add: filter_empty_conv)
  from a b 1 d 2 show ?thesis by blast
qed

text \<open>
  C8 as stated fails: with the flag on, the bring-your-own path renders and applies the
  metric resources too, before it creates its transporter.
\<close>

theorem byo_path_renders_metrics_counterexample:
  "calls (snd (ReconcileTransport
      (example_env None True (example_transporter None (\<lambda>topic. None) 0) None)
      SecretTransporter new_reconciler)) =
   [CallRender, CallNewDiscoveryClientForConfig, CallManipulateObj,
    CallNewBYOTransporter,
    CallCreateUser ''global-hub-kafka-user'',
    CallGenerateClusterTopic ''global'',
    CallCreateTopic (example_topics ''global''),
    CallGrantRead ''global-hub-kafka-user'' ''event'',
    CallGrantRead ''global-hub-kafka-user'' ''status.global'',
    CallGrantWrite ''global-hub-kafka-user'' ''spec'',
    CallGetConnCredential ''global-hub-kafka-user'',
    CallSetTransporter]"
  by (simp add: ReconcileTransport_def renderKafkaMetricsResources_def new_transporter_def
      credential_poll_once example_env_def example_transporter_def example_topics_def
      new_reconciler_def emit_def Let_def)

section \<open>ReconcileTransport: the registration of the transporter\<close>

text \<open>
  C10 (amended). Let a transporter be created (the metric resources ensured, the
  constructor successful). When every step before the poll succeeds,
  \<open>ReconcileTransport\<close> registers the transporter with \<open>config.SetTransporter\<close> as
  its last call, whatever the poll returns: the error it returns is the one
  \<open>GetConnCredential\<close> gave, and the global transporter is set also when that is an
  error. When a step before the poll fails, the function returns that step's error,
  makes no call to \<open>config.SetTransporter\<close> and leaves the global transporter as it
  was.
\<close>

theorem SetTransporter_when_poll_reached:
  assumes "fst (renderKafkaMetricsResources e r) = None"
      and "fst (new_transporter e p r) = Inr tr"
  shows "(let steps_err = snd (spec_run_steps
                (spec_managed_steps tr (DefaultGlobalHubKafkaUser e) (GlobalHubClusterName e)));
              result = fst (ReconcileTransport e p r);
              r' = snd (ReconcileTransport e p r)
          in (steps_err = None \<longrightarrow>
                config_transporter r' = Some tr
                \<and> last (calls r') = CallSetTransporter
                \<and> snd result = snd (GetConnCredential tr 0 (DefaultGlobalHubKafkaUser e)))
             \<and> (steps_err \<noteq> None \<longrightarrow>
                  config_transporter r' = config_transporter r
                  \<and> CallSetTransporter \<notin> set (drop (length (calls r)) (calls r'))
                  \<and> snd result = steps_err))"
proof -
  define r1 where "r1 = snd (renderKafkaMetricsResources e r)"
  define r2 where "r2 = snd (new_transporter e p r1)"
  have render: "renderKafkaMetricsResources e r = (None, r1)"
    using assms(1) r1_def by (cases "renderKafkaMetricsResources e r") auto
  have nt: "new_transporter e p r1 = (Inr tr, r2)"
    using assms(2) r2_def new_transporter_frame(2) [of e p r1 r]
    by (cases "new_transporter e p r1") auto
  have ct: "config_transporter r2 = config_transporter r"
    unfolding r2_def r1_def by (simp add: new_transporter_frame renderKafkaMetricsResources_frame)
  obtain pre where c2: "calls r2 = calls r @ pre" and pre: "CallSetTransporter \<notin> set pre"
    unfolding r2_def r1_def new_transporter_calls renderKafkaMetricsResources_calls
    by (cases p) auto
  obtain cs res where run: "spec_run_steps
      (spec_managed_steps tr (DefaultGlobalHubKafkaUser e) (GlobalHubClusterName e)) = (cs, res)"
    by (cases "spec_run_steps
      (spec_managed_steps tr (DefaultGlobalHubKafkaUser e) (GlobalHubClusterName e))")
  have "set cs \<subseteq> set (map fst
      (spec_managed_steps tr (DefaultGlobalHubKafkaUser e) (GlobalHubClusterName e)))"
    using spec_run_steps_take [OF run] set_take_subset by metis
  then have cs: "CallSetTransporter \<notin> set cs"
    by (auto simp: spec_managed_steps_def Let_def)
  show ?thesis
    using ReconcileTransport_steps [OF render nt] run ct c2 pre cs
    by (cases res)
      (auto simp: Let_def credential_poll_once emit_def split: prod.splits option.splits)
qed

text \<open>
  A credential that is not ready (the pass fails, the transporter is registered), and a
  grant that fails (the pass fails, nothing is registered).
\<close>

theorem SetTransporter_when_poll_reached_witness:
  "fst (ReconcileTransport
          (example_env (Some (ApiNotFound ''not found'')) False
             (example_transporter None (\<lambda>topic. None) 1) None)
          StrimziTransporter new_reconciler) =
     (None, Some (Err ''the kafka user is not ready''))
   \<and> config_transporter (snd (ReconcileTransport
          (example_env (Some (ApiNotFound ''not found'')) False
             (example_transporter None (\<lambda>topic. None) 1) None)
          StrimziTransporter new_reconciler)) =
     Some (example_transporter None (\<lambda>topic. None) 1)
   \<and> config_transporter (snd (ReconcileTransport
          (example_env (Some (ApiNotFound ''not found'')) False
             (example_transporter None (\<lambda>topic. if topic = ''event'' then Some (Err ''acl denied'') else None) 0) None)
          StrimziTransporter new_reconciler)) = None"
  using SetTransporter_when_poll_reached
      [of "example_env (Some (ApiNotFound ''not found'')) False
             (example_transporter None (\<lambda>topic. None) 1) None"
          new_reconciler StrimziTransporter "example_transporter None (\<lambda>topic. None) 1"]
    SetTransporter_when_poll_reached
      [of "example_env (Some (ApiNotFound ''not found'')) False
             (example_transporter None (\<lambda>topic. if topic = ''event'' then Some (Err ''acl denied'') else None) 0) None"
          new_reconciler StrimziTransporter
          "example_transporter None (\<lambda>topic. if topic = ''event'' then Some (Err ''acl denied'') else None) 0"]
  by (simp add: Let_def renderKafkaMetricsResources_def new_transporter_def example_env_def
      spec_managed_steps_def new_reconciler_def example_transporter_def example_topics_def
      ReconcileTransport_def credential_poll_once emit_def)

text \<open>
  C10 as stated fails: here the Strimzi transporter is created, \<open>CreateUser\<close> fails,
  and the function returns with the global transporter still unset.
\<close>

theorem transporter_created_but_not_registered_counterexample:
  "ReconcileTransport
     (example_env (Some (ApiNotFound ''not found'')) False
        (example_transporter (Some (Err ''cannot create the kafka user'')) (\<lambda>topic. None) 0) None)
     StrimziTransporter new_reconciler =
   ((None, Some (Err ''cannot create the kafka user'')),
    \<lparr>KafkaInit = False, TransportConn = None, StorageConn = None,
     config_transporter = None,
     calls = [CallNewStrimziTransporter, CallCreateUser ''global-hub-kafka-user'']\<rparr>)"
  by (simp add: ReconcileTransport_def renderKafkaMetricsResources_def new_transporter_def
      example_env_def example_transporter_def new_reconciler_def emit_def Let_def)

section \<open>The poll\<close>

text \<open>
  The poll as the library runs it: a condition that is never done and never fails is
  asked until the deadline, and the poll returns the deadline error; a condition that
  returns an error at its first run ends the poll at once. The closure of the storage
  poll answers (false, nil) when postgres is not ready, and that poll goes on: below,
  the connection is there at the third attempt and the poll returns it.
\<close>

lemma loopConditionUntilContext_unfold:
  "0 < n \<Longrightarrow>
     loopConditionUntilContext n k condition s =
       (case condition k s of
          ((ok, err), s') \<Rightarrow>
            if err \<noteq> None \<or> ok then (err, s')
            else loopConditionUntilContext (n - 1) (Suc k) condition s')"
  by (cases n) (auto split: prod.splits)

lemma loopConditionUntilContext_never_done:
  "(\<And>k s. condition k s = ((False, None), s)) \<Longrightarrow>
     loopConditionUntilContext n k condition s = (Some DeadlineExceeded, s)"
  by (induction n arbitrary: k) simp_all

lemma PollUntilContextTimeout_never_done:
  "(\<And>k s. condition k s = ((False, None), s)) \<Longrightarrow>
     PollUntilContextTimeout interval timeout immediate condition s = (Some DeadlineExceeded, s)"
  by (simp add: PollUntilContextTimeout_def Let_def loopConditionUntilContext_never_done)

lemma PollUntilContextTimeout_error_ends:
  "condition 0 s = ((ok, Some err), s') \<Longrightarrow>
     PollUntilContextTimeout interval timeout True condition s = (Some err, s')"
  by (simp add: PollUntilContextTimeout_def)

lemma storage_poll_goes_on:
  "PollUntilContextTimeout (2 * time_Second) (10 * time_Minute) True
     (postgres_condition
        \<lparr>GetPGConnectionFromGHStorageSecret = (None, Some (ApiNotFound ''not found'')),
         GetInstallCrunchyOperator = True,
         EnsureCrunchyPostgresSubscription = None,
         InitPostgresByStatefulset = (None, None),
         EnsureCrunchyPostgres = (\<lambda>n. None),
         GetPGConnectionFromBuildInPostgres = (\<lambda>k.
           if k < 2 then (None, Some (Err ''the postgres secret is not ready''))
           else (Some (PostgresConnection ''crunchy''), None))\<rparr>)
     None =
   (None, Some (PostgresConnection ''crunchy''))"
  by (simp add: PollUntilContextTimeout_def postgres_condition_def time_Second_def time_Minute_def
      loopConditionUntilContext_unfold)

section \<open>ReconcileTransport: the wait for the credential\<close>

text \<open>
  C2. The claim is that a failed attempt does not abort the wait. Here the credential is
  not ready at the first two attempts and ready at the third (tick 2, four seconds in).
  \<open>ReconcileTransport\<close> asks once, logs, and returns the error of that one attempt,
  which is not the timeout error, with a nil credential: the closure returns its error
  to the poll, and the poll ends on an error.
\<close>

theorem credential_wait_ends_at_first_failure:
  "ReconcileTransport
     (example_env (Some (ApiNotFound ''not found'')) False
        (example_transporter None (\<lambda>topic. None) 2) None)
     StrimziTransporter new_reconciler =
   ((None, Some (Err ''the kafka user is not ready'')),
    \<lparr>KafkaInit = False, TransportConn = None, StorageConn = None,
     config_transporter = Some (example_transporter None (\<lambda>topic. None) 2),
     calls =
       [CallNewStrimziTransporter,
        CallCreateUser ''global-hub-kafka-user'',
        CallGenerateClusterTopic ''global'',
        CallCreateTopic (example_topics ''global''),
        CallGrantRead ''global-hub-kafka-user'' ''event'',
        CallGrantRead ''global-hub-kafka-user'' ''status.global'',
        CallGrantWrite ''global-hub-kafka-user'' ''spec'',
        CallGetConnCredential ''global-hub-kafka-user'',
        LogInfo ''waiting the kafka connection credential to be ready...'',
        CallSetTransporter]\<rparr>)
   \<and> GetConnCredential (example_transporter None (\<lambda>topic. None) 2) 2 ''global-hub-kafka-user'' =
       (Some (ConnCredential ''kafka-bootstrap:9092''), None)
   \<and> Err ''the kafka user is not ready'' \<noteq> DeadlineExceeded"
  by (simp add: ReconcileTransport_def renderKafkaMetricsResources_def new_transporter_def
      PollUntilContextTimeout_def credential_condition_def DeadlineExceeded_def
      example_env_def example_transporter_def example_topics_def new_reconciler_def emit_def Let_def)

section \<open>Helper facts on the reconciler state\<close>












lemma range_errorChan_cases:
  "range_errorChan [] = (Result_zero, None)"
  "range_errorChan (Some x # rest) =
     (\<lparr>Requeue = False, RequeueAfter = 5 * time_Second\<rparr>,
      Some (Err (''middleware not ready, Error: '' @ Error_msg x)))"
  by simp_all

section \<open>The goroutines under any schedule\<close>






























section \<open>ReconcileMiddleware: the joint barrier\<close>




section \<open>Passes in turn\<close>




























section \<open>ReconcileMiddleware: the Kafka controller is not ready\<close>




section \<open>The receive callback\<close>

lemma receive_loop_acks:
  "fst (receive_loop env c events) = replicate (length events) ResultACK"
proof (induction events arbitrary: c)
  case Nil
  then show ?case by simp
next
  case (Cons event events)
  have "fst (receive env c event) = ResultACK"
    by (simp add: receive_def split: option.splits prod.splits sum.splits)
  with Cons.IH [of "snd (receive env c event)"] show ?case
    by (cases "receive env c event"; cases "receive_loop env (snd (receive env c event)) events") auto
qed

text \<open>
  C5. For every event the callback receives, it returns an acknowledgement. An event
  without chunk metadata is written to the output queue unchanged. A chunk whose
  assembly is not complete is consumed: the queue stays as it was and only the
  assembler's state changes. When the assembly completes, the data of the event is
  set to the assembled payload and that event is written to the queue; if setting the
  data fails, nothing is written, and the acknowledgement is returned all the same.
  Over any list of arrivals, every call of the callback returns an acknowledgement.
\<close>

theorem receive_forwards_and_acknowledges:
  "fst (receive env c event) = ResultACK
   \<and> (messageChunk env event = None \<longrightarrow>
        snd (receive env c event) = c\<lparr>eventChan := eventChan c @ [event]\<rparr>)
   \<and> (\<forall>chunk asm1. messageChunk env event = Some chunk
          \<and> assemble env (assembler c) chunk = (None, asm1) \<longrightarrow>
        snd (receive env c event) = c\<lparr>assembler := asm1\<rparr>
        \<and> eventChan (snd (receive env c event)) = eventChan c)
   \<and> (\<forall>chunk payload asm1 event1. messageChunk env event = Some chunk
          \<and> assemble env (assembler c) chunk = (Some payload, asm1)
          \<and> SetData env event payload = Inr event1 \<longrightarrow>
        snd (receive env c event) = c\<lparr>assembler := asm1, eventChan := eventChan c @ [event1]\<rparr>)
   \<and> (\<forall>chunk payload asm1 err. messageChunk env event = Some chunk
          \<and> assemble env (assembler c) chunk = (Some payload, asm1)
          \<and> SetData env event payload = Inl err \<longrightarrow>
        snd (receive env c event) = c\<lparr>assembler := asm1\<rparr>
        \<and> eventChan (snd (receive env c event)) = eventChan c)
   \<and> fst (receive_loop env c events) = replicate (length events) ResultACK"
  by (auto simp: receive_def receive_loop_acks split: option.splits prod.splits sum.splits)

text \<open>
  A whole message; the second chunk of two arriving first; the first chunk completing
  the message; and the same completion when setting the data fails.
\<close>

theorem receive_forwards_and_acknowledges_witness:
  "receive (example_consumer_env set_json_data) example_consumer
       (example_event ''e1'' ''whole'' None) =
     (ResultACK, example_consumer\<lparr>eventChan := [example_event ''e1'' ''whole'' None]\<rparr>)
   \<and> receive (example_consumer_env set_json_data) example_consumer
         (example_event ''e2'' ''cd'' (Some \<lparr>groupKey = ''g'', chunk_index = 1, chunk_total = 2\<rparr>)) =
       (ResultACK, example_consumer\<lparr>assembler := [(''g'', [(1, ''cd'')])]\<rparr>)
   \<and> receive (example_consumer_env set_json_data)
         (example_consumer\<lparr>assembler := [(''g'', [(1, ''cd'')])]\<rparr>)
         (example_event ''e3'' ''ab'' (Some \<lparr>groupKey = ''g'', chunk_index = 0, chunk_total = 2\<rparr>)) =
       (ResultACK,
        example_consumer\<lparr>assembler := [],
          eventChan := [example_event ''e3'' ''abcd''
             (Some \<lparr>groupKey = ''g'', chunk_index = 0, chunk_total = 2\<rparr>)]\<rparr>)
   \<and> receive (example_consumer_env (\<lambda>event payload. Inl (Err ''cannot encode'')))
         (example_consumer\<lparr>assembler := [(''g'', [(1, ''cd'')])]\<rparr>)
         (example_event ''e3'' ''ab'' (Some \<lparr>groupKey = ''g'', chunk_index = 0, chunk_total = 2\<rparr>)) =
       (ResultACK, example_consumer\<lparr>assembler := []\<rparr>)"
proof -
  let ?env = "example_consumer_env set_json_data"
  let ?bad = "example_consumer_env (\<lambda>event payload. Inl (Err ''cannot encode''))"
  let ?c1 = "example_consumer\<lparr>assembler := [(''g'', [(1, ''cd'')])]\<rparr>"
  let ?e1 = "example_event ''e1'' ''whole'' None"
  let ?e2 = "example_event ''e2'' ''cd'' (Some \<lparr>groupKey = ''g'', chunk_index = 1, chunk_total = 2\<rparr>)"
  let ?e3 = "example_event ''e3'' ''ab'' (Some \<lparr>groupKey = ''g'', chunk_index = 0, chunk_total = 2\<rparr>)"
  have m1: "messageChunk ?env ?e1 = None"
    by (simp add: example_consumer_env_def chunk_of_event_def example_event_def)
  have m2: "messageChunk ?env ?e2 = Some (\<lparr>groupKey = ''g'', chunk_index = 1, chunk_total = 2\<rparr>, ''cd'')
       \<and> assemble ?env (assembler example_consumer)
            (\<lparr>groupKey = ''g'', chunk_index = 1, chunk_total = 2\<rparr>, ''cd'') =
          (None, [(''g'', [(1, ''cd'')])])"
    by (simp add: example_consumer_env_def chunk_of_event_def example_event_def onChunk_def
        example_consumer_def Let_def)
  have m3: "messageChunk ?env ?e3 = Some (\<lparr>groupKey = ''g'', chunk_index = 0, chunk_total = 2\<rparr>, ''ab'')
       \<and> assemble ?env (assembler ?c1)
            (\<lparr>groupKey = ''g'', chunk_index = 0, chunk_total = 2\<rparr>, ''ab'') = (Some ''abcd'', [])
       \<and> SetData ?env ?e3 ''abcd'' =
            Inr (example_event ''e3'' ''abcd'' (Some \<lparr>groupKey = ''g'', chunk_index = 0, chunk_total = 2\<rparr>))"
    by (simp add: example_consumer_env_def chunk_of_event_def example_event_def onChunk_def
        example_consumer_def set_json_data_def Let_def)
  have m4: "messageChunk ?bad ?e3 = Some (\<lparr>groupKey = ''g'', chunk_index = 0, chunk_total = 2\<rparr>, ''ab'')
       \<and> assemble ?bad (assembler ?c1)
            (\<lparr>groupKey = ''g'', chunk_index = 0, chunk_total = 2\<rparr>, ''ab'') = (Some ''abcd'', [])
       \<and> SetData ?bad ?e3 ''abcd'' = Inl (Err ''cannot encode'')"
    by (simp add: example_consumer_env_def chunk_of_event_def example_event_def onChunk_def
        example_consumer_def Let_def)
  note t1 = receive_forwards_and_acknowledges [of ?env example_consumer ?e1 "[]"]
  note t2 = receive_forwards_and_acknowledges [of ?env example_consumer ?e2 "[]"]
  note t3 = receive_forwards_and_acknowledges [of ?env ?c1 ?e3 "[]"]
  note t4 = receive_forwards_and_acknowledges [of ?bad ?c1 ?e3 "[]"]
  have r1: "receive ?env example_consumer ?e1 =
      (ResultACK, example_consumer\<lparr>eventChan := eventChan example_consumer @ [?e1]\<rparr>)"
    using t1 m1 by (simp add: prod_eq_iff)
  have r2: "receive ?env example_consumer ?e2 = (ResultACK, ?c1)"
    using t2 m2 by (simp add: prod_eq_iff)
  have r3: "receive ?env ?c1 ?e3 =
      (ResultACK, ?c1\<lparr>assembler := [], eventChan := eventChan ?c1 @
         [example_event ''e3'' ''abcd'' (Some \<lparr>groupKey = ''g'', chunk_index = 0, chunk_total = 2\<rparr>)]\<rparr>)"
    using t3 m3 by (simp add: prod_eq_iff)
  have r4: "receive ?bad ?c1 ?e3 = (ResultACK, ?c1\<lparr>assembler := []\<rparr>)"
    using t4 m4 by (simp add: prod_eq_iff)
  from r1 r2 r3 r4 show ?thesis
    by (simp add: example_consumer_def)
qed

section \<open>The start position\<close>

text \<open>
  C7. The start positions are to come from exactly the records of this consumer whose
  topic name follows the naming convention of the status topics; the code selects
  more. Here the store holds, for the consumer's identity cluster-x, the record
  (status.hub1, partition 0, offset 42) and a record under the name statuette, which
  is not the name of a status topic. The query's pattern \<open>^status*\<close> matches both
  names, so \<open>getInitOffset\<close> returns a starting position for each, and \<open>Start\<close>
  hands both to the receiver.
\<close>

theorem getInitOffset_selects_other_names:
  "getInitOffset
     \<lparr>transports =
        [example_row ''statuette'' (Some ''cluster-x'') 3 7,
         example_row ''status.hub1'' (Some ''cluster-x'') 0 42],
      query_error = None\<rparr>
     (clusterIdentity example_consumer) =
     Inr [\<lparr>tp_Topic = ''statuette'', tp_Partition = 3, tp_Offset = 7\<rparr>,
          \<lparr>tp_Topic = ''status.hub1'', tp_Partition = 0, tp_Offset = 42\<rparr>]
   \<and> receiveContext
       \<lparr>transports =
          [example_row ''statuette'' (Some ''cluster-x'') 3 7,
           example_row ''status.hub1'' (Some ''cluster-x'') 0 42],
        query_error = None\<rparr>
       example_consumer =
       Inr (Some [\<lparr>tp_Topic = ''statuette'', tp_Partition = 3, tp_Offset = 7\<rparr>,
                  \<lparr>tp_Topic = ''status.hub1'', tp_Partition = 0, tp_Offset = 42\<rparr>])
   \<and> \<not> status_topic_name ''statuette''
   \<and> status_topic_name ''status.hub1''"
  by (simp add: getInitOffset_def receiveContext_def offset_query_def matches_status_pattern_def
      status_topic_name_def example_row_def example_consumer_def)

section \<open>The package-level transport identity\<close>

lemma applyOptions_EnableDatabaseOffset:
  "\<forall>fn \<in> set opts. \<exists>b. fn = EnableDatabaseOffset b \<Longrightarrow>
     \<exists>c1. applyOptions c opts = Inr c1 \<and> clusterIdentity c1 = clusterIdentity c"
proof (induction opts arbitrary: c)
  case Nil
  then show ?case by simp
next
  case (Cons fn opts)
  then obtain b where fn: "fn = EnableDatabaseOffset b" by auto
  from Cons.prems have "\<forall>fn \<in> set opts. \<exists>b. fn = EnableDatabaseOffset b" by simp
  from Cons.IH [OF this, of "c\<lparr>enableDatabaseOffset := b\<rparr>"] fn
  show ?case by (simp add: EnableDatabaseOffset_def)
qed

lemma select_receiver_identity:
  "select_receiver env cfg topics = (Inr (receiver, ident), cfg1) \<Longrightarrow>
     ident = (if TransportType cfg = transport_Kafka env
              then ClusterIdentity (KafkaConfig cfg) else ''kafka-cluster-chan'')"
  by (auto simp: select_receiver_def Let_def split: if_splits sum.splits option.splits)

lemma NewGenericConsumer_Inr:
  assumes "NewGenericConsumer env cfg topics opts id0 = (Inr c, cfg1, id1)"
  shows "id1 = (if TransportType cfg = transport_Kafka env
                then ClusterIdentity (KafkaConfig cfg) else ''kafka-cluster-chan'')"
    and "(\<forall>fn \<in> set opts. \<exists>b. fn = EnableDatabaseOffset b) \<longrightarrow> clusterIdentity c = id1"
proof -
  obtain sel cfg' where sel: "select_receiver env cfg topics = (sel, cfg')"
    by (cases "select_receiver env cfg topics")
  from assms sel obtain receiver ident where s: "sel = Inr (receiver, ident)"
    by (cases sel) (auto simp: NewGenericConsumer_def)
  from assms sel s obtain cl where cl: "cloudevents_NewClient env receiver = Inr cl"
    by (cases "cloudevents_NewClient env receiver") (auto simp: NewGenericConsumer_def)
  define c0 where "c0 = \<lparr>client = cl, assembler = newMessageAssembler env, eventChan = [],
       consumeTopics = topics, clusterIdentity = ident, enableDatabaseOffset = False\<rparr>"
  from assms sel s cl have ao: "applyOptions c0 opts = Inr c" and id1: "id1 = ident"
    by (auto simp: NewGenericConsumer_def Let_def c0_def split: sum.splits)
  from select_receiver_identity [OF sel [unfolded s]] id1
  show "id1 = (if TransportType cfg = transport_Kafka env
                then ClusterIdentity (KafkaConfig cfg) else ''kafka-cluster-chan'')" by simp
  show "(\<forall>fn \<in> set opts. \<exists>b. fn = EnableDatabaseOffset b) \<longrightarrow> clusterIdentity c = id1"
  proof
    assume "\<forall>fn \<in> set opts. \<exists>b. fn = EnableDatabaseOffset b"
    from applyOptions_EnableDatabaseOffset [OF this, of c0] ao id1
    show "clusterIdentity c = id1" by (simp add: c0_def)
  qed
qed

lemma NewGenericConsumer_Inl:
  "NewGenericConsumer env cfg topics opts id0 = (Inl err, cfg1, id1) \<Longrightarrow> id1 = id0"
  by (auto simp: NewGenericConsumer_def Let_def split: prod.splits sum.splits)

text \<open>
  C9. A call of \<open>NewGenericConsumer\<close> that returns a consumer leaves in
  \<open>transportID\<close> the identity chosen for that consumer, whatever was there before:
  the cluster identity of the Kafka configuration for the Kafka transport, the constant
  "kafka-cluster-chan" for the in-process one; with the options of this file
  (\<open>EnableDatabaseOffset\<close>) it is the \<open>clusterIdentity\<close> of the consumer returned. A
  call that fails leaves the variable as it was. So after a first consumer, the
  construction of a second one that is not a Kafka consumer makes \<open>TransportID()\<close>
  return "kafka-cluster-chan" to everyone, the holder of the first consumer included.
\<close>

theorem NewGenericConsumer_overwrites_transportID:
  "(\<forall>c cfg1 id1. NewGenericConsumer env cfg topics opts id0 = (Inr c, cfg1, id1) \<longrightarrow>
       TransportID id1 =
         (if TransportType cfg = transport_Kafka env
          then ClusterIdentity (KafkaConfig cfg) else ''kafka-cluster-chan'')
       \<and> ((\<forall>fn \<in> set opts. \<exists>b. fn = EnableDatabaseOffset b) \<longrightarrow>
            TransportID id1 = clusterIdentity c))
   \<and> (\<forall>err cfg1 id1. NewGenericConsumer env cfg topics opts id0 = (Inl err, cfg1, id1) \<longrightarrow>
         TransportID id1 = TransportID id0)
   \<and> (\<forall>c cfg1 id1 c2 cfg3 id2.
         NewGenericConsumer env cfg topics opts id0 = (Inr c, cfg1, id1)
         \<and> NewGenericConsumer env cfg2 topics2 opts2 id1 = (Inr c2, cfg3, id2)
         \<and> TransportType cfg2 \<noteq> transport_Kafka env \<longrightarrow>
         TransportID id2 = ''kafka-cluster-chan'')"
proof -
  have 1: "\<forall>c cfg1 id1. NewGenericConsumer env cfg topics opts id0 = (Inr c, cfg1, id1) \<longrightarrow>
       TransportID id1 =
         (if TransportType cfg = transport_Kafka env
          then ClusterIdentity (KafkaConfig cfg) else ''kafka-cluster-chan'')
       \<and> ((\<forall>fn \<in> set opts. \<exists>b. fn = EnableDatabaseOffset b) \<longrightarrow>
            TransportID id1 = clusterIdentity c)"
    using NewGenericConsumer_Inr [of env cfg topics opts id0]
    by (simp add: TransportID_def)
  have 2: "\<forall>err cfg1 id1. NewGenericConsumer env cfg topics opts id0 = (Inl err, cfg1, id1) \<longrightarrow>
         TransportID id1 = TransportID id0"
    using NewGenericConsumer_Inl [of env cfg topics opts id0]
    by (simp add: TransportID_def)
  have 3: "\<forall>c cfg1 id1 c2 cfg3 id2.
         NewGenericConsumer env cfg topics opts id0 = (Inr c, cfg1, id1)
         \<and> NewGenericConsumer env cfg2 topics2 opts2 id1 = (Inr c2, cfg3, id2)
         \<and> TransportType cfg2 \<noteq> transport_Kafka env \<longrightarrow>
         TransportID id2 = ''kafka-cluster-chan''"
  proof (intro allI impI)
    fix c cfg1 id1 c2 cfg3 id2
    assume h: "NewGenericConsumer env cfg topics opts id0 = (Inr c, cfg1, id1)
         \<and> NewGenericConsumer env cfg2 topics2 opts2 id1 = (Inr c2, cfg3, id2)
         \<and> TransportType cfg2 \<noteq> transport_Kafka env"
    then have "NewGenericConsumer env cfg2 topics2 opts2 id1 = (Inr c2, cfg3, id2)" by simp
    from NewGenericConsumer_Inr(1) [OF this] h
    show "TransportID id2 = ''kafka-cluster-chan''" by (simp add: TransportID_def)
  qed
  from 1 2 3 show ?thesis by blast
qed

text \<open>
  A Kafka consumer of cluster-x, then an in-process consumer, and a transport type
  that is not supported.
\<close>

theorem NewGenericConsumer_overwrites_transportID_witness:
  "NewGenericConsumer (example_consumer_env set_json_data)
      \<lparr>TransportType = ''kafka'', KafkaConfig = \<lparr>ClusterIdentity = ''cluster-x''\<rparr>, Extends = None\<rparr>
      [''status.hub1''] [EnableDatabaseOffset True] [] =
     (Inr example_consumer,
      \<lparr>TransportType = ''kafka'', KafkaConfig = \<lparr>ClusterIdentity = ''cluster-x''\<rparr>, Extends = None\<rparr>,
      ''cluster-x'')
   \<and> TransportID ''cluster-x'' = clusterIdentity example_consumer
   \<and> fst (NewGenericConsumer (example_consumer_env set_json_data)
        \<lparr>TransportType = ''chan'', KafkaConfig = \<lparr>ClusterIdentity = ''ignored''\<rparr>, Extends = None\<rparr>
        [] [] ''cluster-x'') =
       Inr \<lparr>client = Client (GoChan 0), assembler = [], eventChan = [], consumeTopics = [],
            clusterIdentity = ''kafka-cluster-chan'', enableDatabaseOffset = False\<rparr>
   \<and> TransportID (snd (snd (NewGenericConsumer (example_consumer_env set_json_data)
        \<lparr>TransportType = ''chan'', KafkaConfig = \<lparr>ClusterIdentity = ''ignored''\<rparr>, Extends = None\<rparr>
        [] [] ''cluster-x''))) = ''kafka-cluster-chan''
   \<and> fst (NewGenericConsumer (example_consumer_env set_json_data)
        \<lparr>TransportType = ''mqtt'', KafkaConfig = \<lparr>ClusterIdentity = ''ignored''\<rparr>, Extends = None\<rparr>
        [] [] ''cluster-x'') = Inl (Err ''transport-type - mqtt is not a valid option'')
   \<and> TransportID (snd (snd (NewGenericConsumer (example_consumer_env set_json_data)
        \<lparr>TransportType = ''mqtt'', KafkaConfig = \<lparr>ClusterIdentity = ''ignored''\<rparr>, Extends = None\<rparr>
        [] [] ''cluster-x''))) = TransportID ''cluster-x''"
proof -
  let ?env = "example_consumer_env set_json_data"
  let ?kafka = "\<lparr>TransportType = ''kafka'', KafkaConfig = \<lparr>ClusterIdentity = ''cluster-x''\<rparr>, Extends = None\<rparr>"
  let ?chan = "\<lparr>TransportType = ''chan'', KafkaConfig = \<lparr>ClusterIdentity = ''ignored''\<rparr>, Extends = None\<rparr>"
  let ?mqtt = "\<lparr>TransportType = ''mqtt'', KafkaConfig = \<lparr>ClusterIdentity = ''ignored''\<rparr>, Extends = None\<rparr>"
  let ?c2 = "\<lparr>client = Client (GoChan 0), assembler = [], eventChan = [], consumeTopics = [],
            clusterIdentity = ''kafka-cluster-chan'', enableDatabaseOffset = False\<rparr> :: ChunkAssembler GenericConsumer"
  have k: "NewGenericConsumer ?env ?kafka [''status.hub1''] [EnableDatabaseOffset True] [] =
      (Inr example_consumer, ?kafka, ''cluster-x'')"
    by (simp add: NewGenericConsumer_def select_receiver_def getConfluentReceiverProtocol_def
        example_consumer_env_def example_consumer_def EnableDatabaseOffset_def Let_def)
  have o: "\<forall>fn \<in> set [EnableDatabaseOffset True :: ChunkAssembler GenericConsumeOption].
      \<exists>b. fn = EnableDatabaseOffset b"
    by auto
  obtain cfg3 id2 where ch: "NewGenericConsumer ?env ?chan [] [] ''cluster-x'' = (Inr ?c2, cfg3, id2)"
    by (simp add: NewGenericConsumer_def select_receiver_def example_consumer_env_def Let_def)
  obtain err cfg4 id3 where mq: "NewGenericConsumer ?env ?mqtt [] [] ''cluster-x'' = (Inl err, cfg4, id3)"
    and err: "err = Err ''transport-type - mqtt is not a valid option''"
    by (simp add: NewGenericConsumer_def select_receiver_def example_consumer_env_def Let_def)
  have nk: "TransportType ?chan \<noteq> transport_Kafka ?env"
    by (simp add: example_consumer_env_def)
  note t1 = NewGenericConsumer_overwrites_transportID
      [of ?env ?kafka "[''status.hub1'']" "[EnableDatabaseOffset True]" "[]" ?chan "[]" "[]"]
  note t2 = NewGenericConsumer_overwrites_transportID
      [of ?env ?mqtt "[]" "[]" "''cluster-x''" ?chan "[]" "[]"]
  from t1 k o have a: "TransportID ''cluster-x'' = clusterIdentity example_consumer"
    by blast
  from t1 k ch nk have b: "TransportID id2 = ''kafka-cluster-chan''"
    by blast
  from t2 mq have c: "TransportID id3 = TransportID ''cluster-x''"
    by blast
  from k a b c ch mq err show ?thesis
    by simp
qed

end
